theory Spec2Isabelle
  imports Main
begin

section \<open>Strings\<close>

text \<open>
  JavaScript strings are modelled as \<open>string\<close> (lists of 8-bit characters), so the
  model covers ASCII text: \<open>toLowerCase\<close> folds the letters A to Z, and whitespace is the
  ASCII part of what \<open>String.prototype.trim\<close> and the regular expression class
  \<open>\s\<close> recognise (space, tab, line feed, vertical tab, form feed, carriage return).
\<close>

definition toLowerCase_char :: "char \<Rightarrow> char" where
  "toLowerCase_char c =
     (case map_of (zip ''ABCDEFGHIJKLMNOPQRSTUVWXYZ'' ''abcdefghijklmnopqrstuvwxyz'') c of
        None \<Rightarrow> c
      | Some l \<Rightarrow> l)"

definition toLowerCase :: "string \<Rightarrow> string" where
  "toLowerCase s = map toLowerCase_char s"

definition is_space :: "char \<Rightarrow> bool" where
  "is_space c = (c \<in> set [CHR 0x20, CHR 0x09, CHR 0x0A, CHR 0x0B, CHR 0x0C, CHR 0x0D])"

definition trim :: "string \<Rightarrow> string" where
  "trim s = rev (dropWhile is_space (rev (dropWhile is_space s)))"

text \<open>\<open>s.startsWith(p)\<close> and \<open>s.split(sep)\<close> for a one-character separator.\<close>

definition startsWith :: "'a list \<Rightarrow> 'a list \<Rightarrow> bool" where
  "startsWith s p = (take (length p) s = p)"

fun split :: "'a list \<Rightarrow> 'a \<Rightarrow> 'a list list" where
  "split [] sep = [[]]"
| "split (x # xs) sep =
     (if x = sep then [] # split xs sep
      else (case split xs sep of [] \<Rightarrow> [[x]] | y # ys \<Rightarrow> (x # y) # ys))"

section \<open>Constants and errors\<close>

text \<open>\<open>config/constants.js\<close>: the roles and the error messages the services use.\<close>

definition USER_ROLES_ADMIN :: string where "USER_ROLES_ADMIN = ''admin''"
definition USER_ROLES_USER :: string where "USER_ROLES_USER = ''user''"

definition UNAUTHORIZED :: string where "UNAUTHORIZED = ''Unauthorized access''"
definition FORBIDDEN :: string where "FORBIDDEN = ''Access forbidden''"
definition DUPLICATE_ENTRY :: string where "DUPLICATE_ENTRY = ''Duplicate entry''"
definition INVALID_CREDENTIALS :: string where "INVALID_CREDENTIALS = ''Invalid credentials''"
definition TOKEN_EXPIRED :: string where "TOKEN_EXPIRED = ''Token has expired''"
definition INVALID_TOKEN :: string where "INVALID_TOKEN = ''Invalid token''"

text \<open>
  Every exception the modelled code can raise. \<open>ApiError\<close> carries the fields its
  constructor sets: statusCode, message, details, isOperational and the timestamp (the
  clock reading at the throw). The other constructors are the errors of the runtime and
  of the libraries: a \<open>TypeError\<close> of the JavaScript runtime, the two errors of
  \<open>jsonwebtoken\<close> that the code tells apart by name, a Mongoose validation error
  (with the failing schema paths), a MongoDB server error (code and index field) and a
  plain \<open>Error\<close> with its message. Stack traces are not modelled.
\<close>

datatype error =
    ApiError nat string string bool nat
  | TypeError
  | JsonWebTokenError
  | TokenExpiredError
  | ValidationError "string list"
  | MongoServerError nat string
  | Error string

text \<open>\<open>new ApiError(statusCode, message, details = '', isOperational = true)\<close> at time \<open>now\<close>.\<close>

definition new_ApiError :: "nat \<Rightarrow> string \<Rightarrow> string \<Rightarrow> nat \<Rightarrow> error" where
  "new_ApiError statusCode message details now = ApiError statusCode message details True now"

section \<open>Configuration and clock\<close>

text \<open>
  \<open>process.env\<close>: a variable that is not set is \<open>None\<close>. The two lifetimes are held
  as seconds (the source passes a duration string such as \<open>'7d'\<close> to the library,
  which converts it). Every operation reads the clock once: \<open>now\<close>, in seconds.
\<close>

record env =
  JWT_SECRET :: "string option"
  JWT_REFRESH_SECRET :: "string option"
  JWT_EXPIRES_IN :: "nat option"
  JWT_REFRESH_EXPIRES_IN :: "nat option"
  BCRYPT_ROUNDS :: "nat option"

section \<open>The libraries: jsonwebtoken and bcryptjs\<close>

text \<open>
  Both libraries are third-party code. They are modelled symbolically, in the manner of
  perfect cryptography: a signed token is a term that records its payload, the times
  \<open>iat\<close> and \<open>exp\<close>, and the secret it was signed with, and a signature verifies
  exactly under that secret. A string that may carry a token (a token returned to the
  client, a request field, the Authorization header, the stored refresh token) is a list
  of symbols, each an ordinary character or a whole signed token, so that the string
  operations of the source apply to it unchanged.
\<close>

record payload =
  p_userId :: nat
  p_email :: "string option"
  p_role :: "string option"

datatype symbol = Plain char | Jwt payload nat nat string

type_synonym tstring = "symbol list"

text \<open>
  \<open>jwt.sign(payload, secretOrPrivateKey, {expiresIn})\<close>: a missing or empty secret
  makes the library throw a plain Error.
\<close>

definition jwt_sign :: "payload \<Rightarrow> string option \<Rightarrow> nat \<Rightarrow> nat \<Rightarrow> error + tstring" where
  "jwt_sign pl secretOrPrivateKey expiresIn now =
     (case secretOrPrivateKey of
        None \<Rightarrow> Inl (Error ''secretOrPrivateKey must have a value'')
      | Some k \<Rightarrow>
          if k = [] then Inl (Error ''secretOrPrivateKey must have a value'')
          else Inr [Jwt pl now (now + expiresIn) k])"

text \<open>
  \<open>jwt.verify(token, secretOrPublicKey)\<close>: anything that is not one well-formed token,
  a missing secret and a signature made with another secret give a JsonWebTokenError;
  the signature is checked before the expiry; a token is expired from \<open>exp\<close> on.
\<close>

fun jwt_verify :: "tstring \<Rightarrow> string option \<Rightarrow> nat \<Rightarrow> error + payload" where
  "jwt_verify [Jwt pl iat exp k] (Some secretOrPublicKey) now =
     (if secretOrPublicKey = [] \<or> secretOrPublicKey \<noteq> k then Inl JsonWebTokenError
      else if exp \<le> now then Inl TokenExpiredError
      else Inr pl)"
| "jwt_verify token secretOrPublicKey now = Inl JsonWebTokenError"

text \<open>
  bcrypt keys its cipher with 72 bytes read cyclically from the password followed by a
  zero byte (\<open>offp = (offp + 1) % data.length\<close>), so only these 72 bytes of a password
  take part in a hash: two passwords with the same key have the same hashes.
\<close>

definition bcrypt_key :: "string \<Rightarrow> string" where
  "bcrypt_key s = (let data = s @ [CHR 0x00] in map (\<lambda>i. data ! (i mod length data)) [0..<72])"

text \<open>
  The value of a password field. \<open>Bcrypt rounds salt k\<close> is a well-formed bcrypt hash
  string (60 characters): cost, salt, and the key that was hashed; a string of 60
  characters whose salt part bcrypt can read counts as such a hash, of a key that
  perhaps no password has. \<open>Unhashed h\<close> is any other string \<open>h\<close>. \<open>bcrypt.genSalt\<close> brings the cost into the range from 4 to 31.
  \<open>bcrypt.compare\<close> hashes the candidate with the cost and salt of the stored hash and
  compares; it fails when that cost is outside the range from 4 to 31, answers false on
  a string that has not 60 characters, and fails on a string of 60 characters whose salt
  part it cannot read.
\<close>

datatype pwstring = Bcrypt nat string string | Unhashed string

definition bcrypt_genSalt_rounds :: "nat \<Rightarrow> nat" where
  "bcrypt_genSalt_rounds rounds = (if rounds < 4 then 4 else if 31 < rounds then 31 else rounds)"

definition bcrypt_hash :: "string \<Rightarrow> nat \<Rightarrow> string \<Rightarrow> pwstring" where
  "bcrypt_hash s rounds salt = Bcrypt rounds salt (bcrypt_key s)"

fun bcrypt_compare :: "string \<Rightarrow> pwstring \<Rightarrow> error + bool" where
  "bcrypt_compare s (Bcrypt rounds salt k) =
     (if rounds < 4 \<or> 31 < rounds then Inl (Error ''Illegal number of rounds (4-31)'')
      else Inr (bcrypt_key s = k))"
| "bcrypt_compare s (Unhashed h) =
     (if length h \<noteq> 60 then Inr False else Inl (Error ''Invalid salt''))"

section \<open>The User model\<close>

text \<open>
  A user document (\<open>models/User.js\<close>). \<open>password\<close> and \<open>refreshToken\<close> are
  \<open>None\<close> when the field is absent, null, or not selected by a query
  (\<open>select: false\<close>); \<open>lastLogin\<close> is \<open>None\<close> for null. \<open>u_id\<close> is \<open>_id\<close>.
\<close>

record user =
  u_id :: nat
  name :: string
  email :: string
  password :: "pwstring option"
  role :: string
  isActive :: bool
  lastLogin :: "nat option"
  refreshToken :: "tstring option"
  createdAt :: nat
  updatedAt :: nat

text \<open>The collection, in insertion order.\<close>

type_synonym store = "user list"

text \<open>
  \<open>userSchema.methods.comparePassword\<close>: bcrypt fails on a missing hash; every
  failure of bcrypt is caught and replaced by one Error.
\<close>

definition comparePassword :: "user \<Rightarrow> string \<Rightarrow> error + bool" where
  "comparePassword this candidatePassword =
     (case password this of
        None \<Rightarrow> Inl (Error ''Password comparison failed'')
      | Some h \<Rightarrow>
          (case bcrypt_compare candidatePassword h of
             Inl err \<Rightarrow> Inl (Error ''Password comparison failed'')
           | Inr b \<Rightarrow> Inr b))"

text \<open>
  The object handed to \<open>register\<close> and on to \<open>Model.create\<close>: any schema path may be
  present or absent.
\<close>

record userData =
  d_name :: "string option"
  d_email :: "string option"
  d_password :: "string option"
  d_role :: "string option"
  d_isActive :: "bool option"
  d_lastLogin :: "nat option"
  d_refreshToken :: "tstring option"

text \<open>
  The setters of the schema's \<open>email\<close> path (\<open>lowercase: true, trim: true\<close>).
  Mongoose applies them when a document is built and also when it casts the filter of a
  query on that path.
\<close>

definition cast_email :: "string \<Rightarrow> string" where
  "cast_email v = trim (toLowerCase v)"

text \<open>
  The schema's validators, on the value after the setters (\<open>trim\<close>, \<open>lowercase\<close>).
  \<open>match_email\<close> is the test of \<open>/^[^\s@]+@[^\s@]+\.[^\s@]+$/\<close>: a non-empty
  run without whitespace or \<open>@\<close>, an \<open>@\<close>, and a run without whitespace or \<open>@\<close>
  that has a dot strictly inside.
\<close>

definition match_email :: "string \<Rightarrow> bool" where
  "match_email s =
     (let ok = (\<lambda>c. \<not> is_space c \<and> c \<noteq> CHR ''@'');
          rest = dropWhile ok s
      in takeWhile ok s \<noteq> [] \<and>
         (case rest of
            [] \<Rightarrow> False
          | c # domain \<Rightarrow> c = CHR ''@'' \<and> list_all ok domain \<and> CHR ''.'' \<in> set (butlast (tl domain))))"

definition valid_name :: "string option \<Rightarrow> bool" where
  "valid_name v = (case v of None \<Rightarrow> False | Some n \<Rightarrow> n \<noteq> [] \<and> 2 \<le> length n \<and> length n \<le> 50)"

definition valid_email :: "string option \<Rightarrow> bool" where
  "valid_email v = (case v of None \<Rightarrow> False | Some e \<Rightarrow> e \<noteq> [] \<and> match_email e)"

definition valid_password :: "string option \<Rightarrow> bool" where
  "valid_password v = (case v of None \<Rightarrow> False | Some p \<Rightarrow> p \<noteq> [] \<and> 8 \<le> length p)"

definition valid_role :: "string \<Rightarrow> bool" where
  "valid_role r = (r = USER_ROLES_ADMIN \<or> r = USER_ROLES_USER)"

text \<open>
  \<open>Model.create(data)\<close>: build the document (setters and defaults), validate, hash the
  password in the pre-save hook, insert. The validation error names the failing paths
  in the order in which Mongoose validates them: the required paths password, email and
  name, then role. \<open>oid\<close> is the identifier generated for the
  document and \<open>salt\<close> the salt that \<open>bcrypt.genSalt\<close> draws. The insert fails on the
  unique indexes of \<open>_id\<close> and \<open>email\<close>. The returned document is the one in memory,
  hashed password included.
\<close>

definition model_create ::
    "env \<Rightarrow> nat \<Rightarrow> nat \<Rightarrow> string \<Rightarrow> userData \<Rightarrow> store \<Rightarrow> (error + user) \<times> store" where
  "model_create ev now oid salt d s =
     (let nm = map_option trim (d_name d);
          em = map_option cast_email (d_email d);
          rl = (case d_role d of None \<Rightarrow> USER_ROLES_USER | Some r \<Rightarrow> r);
          invalid = (if valid_password (d_password d) then [] else [''password'']) @
                    (if valid_email em then [] else [''email'']) @
                    (if valid_name nm then [] else [''name'']) @
                    (if valid_role rl then [] else [''role''])
      in if invalid \<noteq> [] then (Inl (ValidationError invalid), s)
         else
           let rounds = bcrypt_genSalt_rounds
                          (case BCRYPT_ROUNDS ev of None \<Rightarrow> 10 | Some n \<Rightarrow> if n = 0 then 10 else n);
               document = \<lparr> u_id = oid, name = the nm, email = the em,
                            password = Some (bcrypt_hash (the (d_password d)) rounds salt),
                            role = rl,
                            isActive = (case d_isActive d of None \<Rightarrow> True | Some b \<Rightarrow> b),
                            lastLogin = d_lastLogin d,
                            refreshToken = d_refreshToken d,
                            createdAt = now, updatedAt = now \<rparr>
           in if oid \<in> set (map u_id s) then (Inl (MongoServerError 11000 ''_id''), s)
              else if email document \<in> set (map email s) then (Inl (MongoServerError 11000 ''email''), s)
              else (Inr document, s @ [document]))"

section \<open>Repositories\<close>

text \<open>What a query returns of a stored document: the fields with \<open>select: false\<close> are left out.\<close>

definition select_default :: "user \<Rightarrow> user" where
  "select_default u = u\<lparr>password := None, refreshToken := None\<rparr>"

definition select_password :: "user \<Rightarrow> user" where
  "select_password u = u\<lparr>refreshToken := None\<rparr>"

text \<open>\<open>BaseRepository.create\<close> and \<open>BaseRepository.findById\<close> (no options).\<close>

definition create ::
    "env \<Rightarrow> nat \<Rightarrow> nat \<Rightarrow> string \<Rightarrow> userData \<Rightarrow> store \<Rightarrow> (error + user) \<times> store" where
  "create ev now oid salt d s = model_create ev now oid salt d s"

definition findById :: "nat \<Rightarrow> store \<Rightarrow> user option" where
  "findById i s = map_option select_default (find (\<lambda>u. u_id u = i) s)"

text \<open>
  \<open>UserRepository.findByEmail(email, includePassword = false)\<close>: the repository
  lower-cases the argument, Mongoose casts the filter with the setters of the email
  path, and the result is compared with the stored email.
\<close>

definition findByEmail :: "string \<Rightarrow> bool \<Rightarrow> store \<Rightarrow> user option" where
  "findByEmail e includePassword s =
     map_option (if includePassword then select_password else select_default)
       (find (\<lambda>u. email u = cast_email (toLowerCase e)) s)"

text \<open>
  \<open>Model.findByIdAndUpdate(id, data, {new: true})\<close> on the first document with the
  identifier; \<open>timestamps: true\<close> sets \<open>updatedAt\<close>. The update \<open>data\<close> is the
  function that sets the given fields.
\<close>

fun findByIdAndUpdate :: "nat \<Rightarrow> (user \<Rightarrow> user) \<Rightarrow> nat \<Rightarrow> store \<Rightarrow> user option \<times> store" where
  "findByIdAndUpdate i data now [] = (None, [])"
| "findByIdAndUpdate i data now (u # us) =
     (if u_id u = i
      then (let u' = (data u)\<lparr>updatedAt := now\<rparr> in (Some (select_default u'), u' # us))
      else (case findByIdAndUpdate i data now us of (r, us') \<Rightarrow> (r, u # us')))"

definition updateById :: "nat \<Rightarrow> (user \<Rightarrow> user) \<Rightarrow> nat \<Rightarrow> store \<Rightarrow> user option \<times> store" where
  "updateById i data now s = findByIdAndUpdate i data now s"

definition updateLastLogin :: "nat \<Rightarrow> nat \<Rightarrow> store \<Rightarrow> user option \<times> store" where
  "updateLastLogin uid now s = updateById uid (\<lambda>u. u\<lparr>lastLogin := Some now\<rparr>) now s"

definition updateRefreshToken :: "nat \<Rightarrow> tstring option \<Rightarrow> nat \<Rightarrow> store \<Rightarrow> user option \<times> store" where
  "updateRefreshToken uid rt now s = updateById uid (\<lambda>u. u\<lparr>refreshToken := rt\<rparr>) now s"

definition deactivateUser :: "nat \<Rightarrow> nat \<Rightarrow> store \<Rightarrow> user option \<times> store" where
  "deactivateUser uid now s = updateById uid (\<lambda>u. u\<lparr>isActive := False\<rparr>) now s"

section \<open>AuthService\<close>

definition REGISTER_SUCCESS :: string where "REGISTER_SUCCESS = ''Registration successful''"
definition LOGIN_SUCCESS :: string where "LOGIN_SUCCESS = ''Login successful''"
definition LOGOUT_SUCCESS :: string where "LOGOUT_SUCCESS = ''Logout successful''"

text \<open>What \<open>register\<close> and \<open>login\<close> return.\<close>

record auth_result =
  r_user :: user
  r_accessToken :: tstring
  r_refreshToken :: tstring
  r_message :: string

text \<open>
  \<open>generateAccessToken\<close> and \<open>generateRefreshToken\<close>: the lifetimes default to seven
  and to thirty days.
\<close>

definition generateAccessToken :: "env \<Rightarrow> nat \<Rightarrow> user \<Rightarrow> error + tstring" where
  "generateAccessToken ev now u =
     jwt_sign \<lparr> p_userId = u_id u, p_email = Some (email u), p_role = Some (role u) \<rparr>
       (JWT_SECRET ev)
       (case JWT_EXPIRES_IN ev of None \<Rightarrow> 7 * 86400 | Some d \<Rightarrow> d) now"

definition generateRefreshToken :: "env \<Rightarrow> nat \<Rightarrow> user \<Rightarrow> error + tstring" where
  "generateRefreshToken ev now u =
     jwt_sign \<lparr> p_userId = u_id u, p_email = None, p_role = None \<rparr>
       (JWT_REFRESH_SECRET ev)
       (case JWT_REFRESH_EXPIRES_IN ev of None \<Rightarrow> 30 * 86400 | Some d \<Rightarrow> d) now"

text \<open>\<open>sanitizeUser\<close>: a copy of the document without \<open>password\<close> and \<open>refreshToken\<close>.\<close>

definition sanitizeUser :: "user \<Rightarrow> user" where
  "sanitizeUser u = u\<lparr>password := None, refreshToken := None\<rparr>"

text \<open>
  The \<open>catch\<close> block shared by \<open>refreshToken\<close>, \<open>verifyToken\<close> and \<open>authenticate\<close>:
  the two library errors are replaced by a 401, any other error is thrown again.
\<close>

definition catch_jwt :: "nat \<Rightarrow> error \<Rightarrow> error" where
  "catch_jwt now e =
     (case e of
        JsonWebTokenError \<Rightarrow> new_ApiError 401 INVALID_TOKEN [] now
      | TokenExpiredError \<Rightarrow> new_ApiError 401 TOKEN_EXPIRED [] now
      | _ \<Rightarrow> e)"

text \<open>
  \<open>register(userData)\<close>. \<open>userData.email.toLowerCase()\<close> is a TypeError when the
  email is absent. The \<open>catch\<close> block logs and throws the error again. The results of
  the two awaited updates are not used.
\<close>

definition register ::
    "env \<Rightarrow> nat \<Rightarrow> nat \<Rightarrow> string \<Rightarrow> userData \<Rightarrow> store \<Rightarrow> (error + auth_result) \<times> store" where
  "register ev now oid salt d s =
     (case d_email d of
        None \<Rightarrow> (Inl TypeError, s)
      | Some e \<Rightarrow>
          (case findByEmail e False s of
             Some existingUser \<Rightarrow>
               (Inl (new_ApiError 409 DUPLICATE_ENTRY ''Email already registered'' now), s)
           | None \<Rightarrow>
               (case create ev now oid salt d s of
                  (Inl err, s1) \<Rightarrow> (Inl err, s1)
                | (Inr u, s1) \<Rightarrow>
                    (case generateAccessToken ev now u of
                       Inl err \<Rightarrow> (Inl err, s1)
                     | Inr accessToken \<Rightarrow>
                         (case generateRefreshToken ev now u of
                            Inl err \<Rightarrow> (Inl err, s1)
                          | Inr refreshTok \<Rightarrow>
                              (case updateRefreshToken (u_id u) (Some refreshTok) now s1 of
                                 (r1, s2) \<Rightarrow>
                                   (case updateLastLogin (u_id u) now s2 of
                                      (r2, s3) \<Rightarrow>
                                        (Inr \<lparr> r_user = sanitizeUser u,
                                               r_accessToken = accessToken,
                                               r_refreshToken = refreshTok,
                                               r_message = REGISTER_SUCCESS \<rparr>, s3))))))))"

text \<open>\<open>login(email, password)\<close>.\<close>

definition login ::
    "env \<Rightarrow> nat \<Rightarrow> string \<Rightarrow> string \<Rightarrow> store \<Rightarrow> (error + auth_result) \<times> store" where
  "login ev now e pw s =
     (case findByEmail e True s of
        None \<Rightarrow> (Inl (new_ApiError 401 INVALID_CREDENTIALS [] now), s)
      | Some u \<Rightarrow>
          if \<not> isActive u
          then (Inl (new_ApiError 403 FORBIDDEN ''Account is deactivated'' now), s)
          else
            (case comparePassword u pw of
               Inl err \<Rightarrow> (Inl err, s)
             | Inr isPasswordValid \<Rightarrow>
                 if \<not> isPasswordValid
                 then (Inl (new_ApiError 401 INVALID_CREDENTIALS [] now), s)
                 else
                   (case generateAccessToken ev now u of
                      Inl err \<Rightarrow> (Inl err, s)
                    | Inr accessToken \<Rightarrow>
                        (case generateRefreshToken ev now u of
                           Inl err \<Rightarrow> (Inl err, s)
                         | Inr refreshTok \<Rightarrow>
                             (case updateRefreshToken (u_id u) (Some refreshTok) now s of
                                (r1, s1) \<Rightarrow>
                                  (case updateLastLogin (u_id u) now s1 of
                                     (r2, s2) \<Rightarrow>
                                       (Inr \<lparr> r_user = sanitizeUser u,
                                              r_accessToken = accessToken,
                                              r_refreshToken = refreshTok,
                                              r_message = LOGIN_SUCCESS \<rparr>, s2)))))))"

text \<open>
  \<open>refreshToken(refreshToken)\<close>, the operation (the field of the same name is
  \<open>refreshToken\<close>). The result is the object \<open>{accessToken}\<close>.
\<close>

definition refreshToken_op :: "env \<Rightarrow> nat \<Rightarrow> tstring \<Rightarrow> store \<Rightarrow> (error + tstring) \<times> store" where
  "refreshToken_op ev now tok s =
     (case jwt_verify tok (JWT_REFRESH_SECRET ev) now of
        Inl err \<Rightarrow> (Inl (catch_jwt now err), s)
      | Inr decoded \<Rightarrow>
          (case findById (p_userId decoded) s of
             None \<Rightarrow> (Inl (catch_jwt now (new_ApiError 401 INVALID_TOKEN [] now)), s)
           | Some u \<Rightarrow>
               if \<not> isActive u
               then (Inl (catch_jwt now (new_ApiError 401 INVALID_TOKEN [] now)), s)
               else
                 (case generateAccessToken ev now u of
                    Inl err \<Rightarrow> (Inl (catch_jwt now err), s)
                  | Inr accessToken \<Rightarrow> (Inr accessToken, s))))"

text \<open>\<open>logout(userId)\<close>: the result is the message.\<close>

definition logout :: "nat \<Rightarrow> nat \<Rightarrow> store \<Rightarrow> (error + string) \<times> store" where
  "logout uid now s = (Inr LOGOUT_SUCCESS, snd (updateRefreshToken uid None now s))"

text \<open>\<open>verifyToken(token)\<close>.\<close>

definition verifyToken :: "env \<Rightarrow> nat \<Rightarrow> tstring \<Rightarrow> error + payload" where
  "verifyToken ev now tok =
     (case jwt_verify tok (JWT_SECRET ev) now of
        Inl err \<Rightarrow> Inl (catch_jwt now err)
      | Inr decoded \<Rightarrow> Inr decoded)"

section \<open>Authentication middleware\<close>

text \<open>
  The identity that \<open>authenticate\<close> attaches to the request as \<open>req.user\<close>. Identifiers
  (Mongo ObjectIds) are natural numbers; \<open>toString\<close> is injective on them, so comparing
  the strings is comparing the identifiers.
\<close>

record identity =
  userId :: nat
  id_email :: string
  id_role :: string

text \<open>The request: the Authorization header (\<open>None\<close> when missing) and \<open>req.user\<close>.\<close>

record request =
  authorization :: "tstring option"
  req_user :: "identity option"

text \<open>
  \<open>authenticate(req, res, next)\<close>. \<open>Inr\<close> is the call of \<open>next()\<close>, with the request
  as it then is; \<open>Inl\<close> is the error thrown, which the \<open>asyncHandler\<close> wrapper hands
  to \<open>next\<close>. An empty header is falsy. The token is \<open>authHeader.split(' ')[1]\<close>;
  after the \<open>startsWith\<close> test the split has at least two parts, and on a shorter one
  the token would be undefined, which \<open>jwt.verify\<close> rejects.
\<close>

definition authenticate ::
    "env \<Rightarrow> nat \<Rightarrow> request \<Rightarrow> store \<Rightarrow> (error + request) \<times> store" where
  "authenticate ev now req s =
     (case authorization req of
        None \<Rightarrow> (Inl (new_ApiError 401 UNAUTHORIZED ''No token provided'' now), s)
      | Some authHeader \<Rightarrow>
          if authHeader = [] \<or> \<not> startsWith authHeader (map Plain ''Bearer '')
          then (Inl (new_ApiError 401 UNAUTHORIZED ''No token provided'' now), s)
          else
            (case drop 1 (split authHeader (Plain CHR '' '')) of
               [] \<Rightarrow> (Inl (catch_jwt now JsonWebTokenError), s)
             | tok # rest \<Rightarrow>
                 (case jwt_verify tok (JWT_SECRET ev) now of
                    Inl err \<Rightarrow> (Inl (catch_jwt now err), s)
                  | Inr decoded \<Rightarrow>
                      (case findById (p_userId decoded) s of
                         None \<Rightarrow>
                           (Inl (catch_jwt now (new_ApiError 401 UNAUTHORIZED ''User not found'' now)), s)
                       | Some u \<Rightarrow>
                           if \<not> isActive u
                           then (Inl (catch_jwt now
                                   (new_ApiError 403 FORBIDDEN ''Account is deactivated'' now)), s)
                           else (Inr (req\<lparr>req_user :=
                                   Some \<lparr> userId = u_id u, id_email = email u, id_role = role u \<rparr>\<rparr>), s)))))"

section \<open>Role and ownership guard\<close>

text \<open>
  \<open>isAdminOrOwner(getResourceUserId)\<close>. The outcome of the caller-supplied
  \<open>getResourceUserId(req)\<close> is that it throws (\<open>Inl\<close>), returns null or undefined
  (\<open>Inr None\<close>), or returns an owner id. The resolver is only called on the path that
  reaches it. The result \<open>Inr ()\<close> is the call of \<open>next()\<close>.
\<close>

definition isAdminOrOwner ::
    "(request \<Rightarrow> error + nat option) \<Rightarrow> nat \<Rightarrow> request \<Rightarrow> error + unit" where
  "isAdminOrOwner getResourceUserId now req =
     (case req_user req of
        None \<Rightarrow> Inl (new_ApiError 401 UNAUTHORIZED [] now)
      | Some u \<Rightarrow>
          if id_role u = USER_ROLES_ADMIN then Inr ()
          else (case getResourceUserId req of
                  Inl e \<Rightarrow> Inl e
                | Inr None \<Rightarrow> Inl TypeError
                | Inr (Some resourceUserId) \<Rightarrow>
                    if userId u \<noteq> resourceUserId
                    then Inl (new_ApiError 403 FORBIDDEN ''You can only access your own resources'' now)
                    else Inr ()))"

text \<open>\<open>authorize(...allowedRoles)\<close>.\<close>

definition authorize :: "string list \<Rightarrow> nat \<Rightarrow> request \<Rightarrow> error + unit" where
  "authorize allowedRoles now req =
     (case req_user req of
        None \<Rightarrow> Inl (new_ApiError 401 UNAUTHORIZED [] now)
      | Some u \<Rightarrow>
          if id_role u \<notin> set allowedRoles
          then Inl (new_ApiError 403 FORBIDDEN ''You do not have permission to access this resource'' now)
          else Inr ())"

section \<open>Example data\<close>

text \<open>A configuration with two different secrets, and requests used as concrete inputs.\<close>

definition env_ex :: env where
  "env_ex = \<lparr> JWT_SECRET = Some ''access-secret'', JWT_REFRESH_SECRET = Some ''refresh-secret'',
               JWT_EXPIRES_IN = None, JWT_REFRESH_EXPIRES_IN = None, BCRYPT_ROUNDS = None \<rparr>"

definition req_plain_user :: request where
  "req_plain_user =
     \<lparr> authorization = None,
       req_user = Some \<lparr> userId = 1, id_email = ''eve@x.io'', id_role = ''user'' \<rparr> \<rparr>"

text \<open>A stored user who logged in before, at time 100, and the same user deactivated.\<close>

definition user_ex :: user where
  "user_ex =
     \<lparr> u_id = 1, name = ''Eve'', email = ''eve@x.io'',
       password = Some (bcrypt_hash ''Secret@123'' 10 ''salt''), role = ''user'', isActive = True,
       lastLogin = Some 100, refreshToken = None, createdAt = 100, updatedAt = 100 \<rparr>"

definition user_inactive :: user where
  "user_inactive = user_ex\<lparr>isActive := False\<rparr>"

text \<open>
  The tokens that \<open>env_ex\<close> issues to \<open>user_ex\<close> at time 100, the user with the
  refresh token stored, a registration that asks for the admin role, and requests without
  and with a bearer token.
\<close>

definition access_token_ex :: tstring where
  "access_token_ex =
     [Jwt \<lparr> p_userId = 1, p_email = Some ''eve@x.io'', p_role = Some ''user'' \<rparr>
        100 604900 ''access-secret'']"

definition refresh_token_ex :: tstring where
  "refresh_token_ex =
     [Jwt \<lparr> p_userId = 1, p_email = None, p_role = None \<rparr> 100 2592100 ''refresh-secret'']"

definition user_logged_in :: user where
  "user_logged_in = user_ex\<lparr>refreshToken := Some refresh_token_ex\<rparr>"

definition d_admin :: userData where
  "d_admin =
     \<lparr> d_name = Some ''Eve'', d_email = Some ''Eve@X.io'', d_password = Some ''Secret@123'',
       d_role = Some ''admin'', d_isActive = None, d_lastLogin = None, d_refreshToken = None \<rparr>"




definition req_no_header :: request where
  "req_no_header = \<lparr> authorization = None, req_user = None \<rparr>"

definition req_bearer :: "tstring \<Rightarrow> request" where
  "req_bearer tok = \<lparr> authorization = Some (map Plain ''Bearer '' @ tok), req_user = None \<rparr>"

section \<open>The common tail of register and login\<close>

text \<open>
  \<open>register\<close> and \<open>login\<close> end with the same lines: generate both tokens, store the
  refresh token, update the last login, return the sanitized copy of the document held
  in memory. For the proofs these lines are named once; \<open>register_tail\<close> and
  \<open>login_tail\<close> below show that both operations end with them.
\<close>

definition issue_tokens ::
    "env \<Rightarrow> nat \<Rightarrow> string \<Rightarrow> user \<Rightarrow> store \<Rightarrow> (error + auth_result) \<times> store" where
  "issue_tokens ev now msg u s =
     (case generateAccessToken ev now u of
        Inl e \<Rightarrow> (Inl e, s)
      | Inr accessToken \<Rightarrow>
          (case generateRefreshToken ev now u of
             Inl e \<Rightarrow> (Inl e, s)
           | Inr refreshTok \<Rightarrow>
               (Inr \<lparr> r_user = sanitizeUser u, r_accessToken = accessToken,
                      r_refreshToken = refreshTok, r_message = msg \<rparr>,
                snd (updateLastLogin (u_id u) now
                  (snd (updateRefreshToken (u_id u) (Some refreshTok) now s))))))"

section \<open>Lemmas on strings and hashes\<close>




lemma bcrypt_key_first: "bcrypt_key s ! 0 = (s @ [CHR 0x00]) ! 0"
  by (simp add: bcrypt_key_def Let_def)

lemma bcrypt_key_ex: "bcrypt_key ''Wrong@123'' \<noteq> bcrypt_key ''Secret@123''"
proof
  assume "bcrypt_key ''Wrong@123'' = bcrypt_key ''Secret@123''"
  then have "bcrypt_key ''Wrong@123'' ! 0 = bcrypt_key ''Secret@123'' ! 0" by simp
  then show False by (simp add: bcrypt_key_first)
qed

lemma comparePassword_error:
  "comparePassword u pw = Inl err \<Longrightarrow> err = Error ''Password comparison failed''"
  by (auto simp: comparePassword_def split: option.splits sum.splits)

lemma findByEmail_ex:
  "findByEmail ''eve@x.io'' True [user_ex] = Some user_ex"
  "findByEmail '' Eve@X.io '' True [user_ex] = Some user_ex"
  "findByEmail ''bob@x.io'' True [user_ex] = None"
  "findByEmail ''eve@x.io'' True [user_inactive] = Some user_inactive"
  "findByEmail '' Eve@X.io '' True [user_inactive] = Some user_inactive"
  by (simp_all add: findByEmail_def cast_email_def trim_def is_space_def toLowerCase_def
        toLowerCase_char_def user_ex_def user_inactive_def select_password_def)

lemma comparePassword_ex:
  "comparePassword user_ex ''Secret@123'' = Inr True"
  "comparePassword user_ex ''Wrong@123'' = Inr False"
  "comparePassword user_inactive ''Wrong@123'' = Inr False"
  by (simp_all add: comparePassword_def user_ex_def user_inactive_def bcrypt_hash_def
        bcrypt_key_ex)

lemma isActive_ex: "isActive user_ex" "\<not> isActive user_inactive"
  by (simp_all add: user_ex_def user_inactive_def)

section \<open>Lemmas on the store\<close>


lemma find_update_first:
  assumes "\<And>u. u_id (data u) = u_id u"
  shows "find (\<lambda>u. u_id u = j) (snd (findByIdAndUpdate i data now s)) =
           (if j = i then map_option (\<lambda>u. (data u)\<lparr>updatedAt := now\<rparr>) (find (\<lambda>u. u_id u = i) s)
            else find (\<lambda>u. u_id u = j) s)"
  using assms by (induction s) (auto simp: Let_def split: prod.splits)

lemma findById_updateRefreshToken:
  "findById j (snd (updateRefreshToken i rt now s)) =
     (if j = i then map_option (\<lambda>u. u\<lparr>updatedAt := now\<rparr>) (findById i s) else findById j s)"
  by (cases "find (\<lambda>u. u_id u = i) s")
     (simp_all add: findById_def updateRefreshToken_def updateById_def find_update_first
        select_default_def)

lemma findById_updateLastLogin:
  "findById j (snd (updateLastLogin i now s)) =
     (if j = i then map_option (\<lambda>u. u\<lparr>lastLogin := Some now, updatedAt := now\<rparr>) (findById i s)
      else findById j s)"
  by (cases "find (\<lambda>u. u_id u = i) s")
     (simp_all add: findById_def updateLastLogin_def updateById_def find_update_first
        select_default_def)



lemma find_appended:
  "i \<notin> set (map u_id s) \<Longrightarrow> u_id u = i \<Longrightarrow> find (\<lambda>x. u_id x = i) (s @ [u]) = Some u"
  by (induction s) auto

lemma findById_map_refreshToken:
  "findById i (map (\<lambda>x. x\<lparr>refreshToken := f x\<rparr>) s) = findById i s"
  by (induction s) (simp_all add: findById_def select_default_def)

lemma find_after_logout:
  "find (\<lambda>x. u_id x = i) (snd (logout i t s)) =
     map_option (\<lambda>u. u\<lparr>refreshToken := None, updatedAt := t\<rparr>) (find (\<lambda>x. u_id x = i) s)"
  by (simp add: logout_def updateRefreshToken_def updateById_def find_update_first)

lemma split_not_Nil: "split xs sep \<noteq> []"
  by (cases xs) (auto split: list.splits)

lemma split_Bearer:
  assumes "startsWith h (map Plain ''Bearer '')"
  shows "\<exists>tok rest. drop 1 (split h (Plain CHR '' '')) = tok # rest \<and>
                    split h (Plain CHR '' '') ! 1 = tok"
proof -
  from assms have "take (length (map Plain ''Bearer '')) h = map Plain ''Bearer ''"
    by (simp only: startsWith_def)
  then obtain r where h: "h = map Plain ''Bearer '' @ r"
    by (metis append_take_drop_id)
  obtain tok rest where t: "split r (Plain CHR '' '') = tok # rest"
    using split_not_Nil [of r "Plain CHR '' ''"] by (cases "split r (Plain CHR '' '')") auto
  have "split h (Plain CHR '' '') = map Plain ''Bearer'' # tok # rest"
    by (simp add: h t)
  then show ?thesis by simp
qed

section \<open>Lemmas on issuing tokens\<close>

lemma register_tail:
  "register ev now oid salt d s =
     (case d_email d of
        None \<Rightarrow> (Inl TypeError, s)
      | Some e \<Rightarrow>
          (case findByEmail e False s of
             Some existingUser \<Rightarrow>
               (Inl (new_ApiError 409 DUPLICATE_ENTRY ''Email already registered'' now), s)
           | None \<Rightarrow>
               (case create ev now oid salt d s of
                  (Inl err, s1) \<Rightarrow> (Inl err, s1)
                | (Inr u, s1) \<Rightarrow> issue_tokens ev now REGISTER_SUCCESS u s1)))"
  by (simp add: register_def issue_tokens_def split: option.splits sum.splits prod.splits)

lemma login_tail:
  "login ev now e pw s =
     (case findByEmail e True s of
        None \<Rightarrow> (Inl (new_ApiError 401 INVALID_CREDENTIALS [] now), s)
      | Some u \<Rightarrow>
          if \<not> isActive u
          then (Inl (new_ApiError 403 FORBIDDEN ''Account is deactivated'' now), s)
          else
            (case comparePassword u pw of
               Inl err \<Rightarrow> (Inl err, s)
             | Inr isPasswordValid \<Rightarrow>
                 if \<not> isPasswordValid
                 then (Inl (new_ApiError 401 INVALID_CREDENTIALS [] now), s)
                 else issue_tokens ev now LOGIN_SUCCESS u s))"
  by (simp add: login_def issue_tokens_def split: option.splits sum.splits prod.splits)

lemma issue_tokens_result:
  "(\<exists>m. fst (issue_tokens ev now msg u s) = Inl (Error m)) \<or>
   (\<exists>r. fst (issue_tokens ev now msg u s) = Inr r)"
  by (simp add: issue_tokens_def generateAccessToken_def generateRefreshToken_def jwt_sign_def
           split: option.splits)

lemma issue_tokens_not_ApiError:
  "fst (issue_tokens ev now msg u s) \<noteq> Inl (ApiError c m d b t)"
  using issue_tokens_result [of ev now msg u s] by auto

lemma issue_tokens_success:
  assumes "issue_tokens ev now msg u s = (Inr r, s')"
  shows "r_user r = sanitizeUser u \<and>
         generateAccessToken ev now u = Inr (r_accessToken r) \<and>
         generateRefreshToken ev now u = Inr (r_refreshToken r) \<and>
         s' = snd (updateLastLogin (u_id u) now
                (snd (updateRefreshToken (u_id u) (Some (r_refreshToken r)) now s)))"
  using assms by (auto simp: issue_tokens_def split: sum.splits)

lemma issued_by_issue_tokens:
  assumes "login ev t0 e pw s0 = (Inr r, s1) \<or> register ev t0 oid salt d s0 = (Inr r, s1)"
  shows "\<exists>msg u s. issue_tokens ev t0 msg u s = (Inr r, s1)"
  using assms
  by (auto simp: login_tail register_tail split: option.splits if_splits sum.splits prod.splits)

lemma create_success:
  assumes "create ev now oid salt d s = (Inr u, s1)"
  shows "s1 = s @ [u] \<and> u_id u = oid \<and> oid \<notin> set (map u_id s) \<and>
         role u = (case d_role d of None \<Rightarrow> USER_ROLES_USER | Some x \<Rightarrow> x)"
  using assms
  by (auto simp: create_def model_create_def Let_def split: if_splits)

section \<open>Login\<close>

text \<open>
  Claim C1, as amended. Login fails with the AccountDeactivatedError (403, "Access
  forbidden", "Account is deactivated") exactly when the lookup by email (lower-cased,
  and trimmed by the schema) finds a user whose isActive is false, whatever the candidate password: the active flag
  is checked before the password. Login fails with the InvalidCredentialsError (401,
  "Invalid credentials") exactly when no user has that email, or the user found is
  active and the candidate password does not match the stored hash.
\<close>

theorem login_failure_kinds:
  "((fst (login ev now e pw s) = Inl (new_ApiError 403 FORBIDDEN ''Account is deactivated'' now))
      = (\<exists>u. findByEmail e True s = Some u \<and> \<not> isActive u)) \<and>
   ((fst (login ev now e pw s) = Inl (new_ApiError 401 INVALID_CREDENTIALS [] now))
      = (findByEmail e True s = None \<or>
         (\<exists>u. findByEmail e True s = Some u \<and> isActive u \<and> comparePassword u pw = Inr False)))"
proof (cases "findByEmail e True s")
  case None
  then show ?thesis by (simp add: login_tail new_ApiError_def)
next
  case (Some u)
  show ?thesis
  proof (cases "isActive u")
    case False
    with Some show ?thesis by (simp add: login_tail new_ApiError_def)
  next
    case True
    show ?thesis
    proof (cases "comparePassword u pw")
      case (Inl err)
      then have "\<exists>m. err = Error m"
        by (auto dest: comparePassword_error)
      with Some True Inl show ?thesis by (auto simp: login_tail new_ApiError_def)
    next
      case (Inr ok)
      with Some True show ?thesis
        by (cases ok) (simp_all add: login_tail new_ApiError_def issue_tokens_not_ApiError)
    qed
  qed
qed

theorem login_failure_kinds_witness:
  "fst (login env_ex 200 ''eve@x.io'' ''Secret@123'' [user_inactive]) =
     Inl (new_ApiError 403 FORBIDDEN ''Account is deactivated'' 200) \<and>
   fst (login env_ex 200 '' Eve@X.io '' ''Wrong@123'' [user_inactive]) =
     Inl (new_ApiError 403 FORBIDDEN ''Account is deactivated'' 200) \<and>
   fst (login env_ex 200 ''eve@x.io'' ''Wrong@123'' [user_ex]) =
     Inl (new_ApiError 401 INVALID_CREDENTIALS [] 200) \<and>
   fst (login env_ex 200 ''bob@x.io'' ''Secret@123'' [user_ex]) =
     Inl (new_ApiError 401 INVALID_CREDENTIALS [] 200)"
  using login_failure_kinds [of env_ex 200 "''eve@x.io''" "''Secret@123''" "[user_inactive]"]
        login_failure_kinds [of env_ex 200 "'' Eve@X.io ''" "''Wrong@123''" "[user_inactive]"]
        login_failure_kinds [of env_ex 200 "''eve@x.io''" "''Wrong@123''" "[user_ex]"]
        login_failure_kinds [of env_ex 200 "''bob@x.io''" "''Secret@123''" "[user_ex]"]
  by (simp add: findByEmail_ex comparePassword_ex isActive_ex)

text \<open>
  The claim as first stated fails: for the deactivated user and a password that does not
  match, the outcome is the AccountDeactivatedError, not the InvalidCredentialsError.
\<close>

theorem login_inactive_wrong_password_counterexample:
  "fst (login env_ex 200 ''eve@x.io'' ''Wrong@123'' [user_inactive]) =
     Inl (new_ApiError 403 FORBIDDEN ''Account is deactivated'' 200) \<and>
   fst (login env_ex 200 ''eve@x.io'' ''Wrong@123'' [user_inactive]) \<noteq>
     Inl (new_ApiError 401 INVALID_CREDENTIALS [] 200) \<and>
   findByEmail ''eve@x.io'' True [user_inactive] = Some user_inactive \<and>
   isActive user_inactive = False \<and>
   comparePassword user_inactive ''Wrong@123'' = Inr False"
  by (simp add: login_tail findByEmail_ex comparePassword_ex isActive_ex new_ApiError_def)





section \<open>Registration\<close>




text \<open>
  Claim C8. \<open>register\<close> hands the whole \<open>userData\<close> object to \<open>create\<close>: whenever
  it succeeds, the user returned is the sanitized copy of the document that \<open>create\<close>
  built from that object, and the role of the returned and of the stored user is the
  role the caller supplied; the default role "user" is used only when the input has no
  role. The witness registers an input with role "admin" and obtains an admin.
\<close>

theorem register_forwards_role:
  assumes "register ev now oid salt d s = (Inr r, s')"
  shows "(\<exists>u. create ev now oid salt d s = (Inr u, s @ [u]) \<and> r_user r = sanitizeUser u) \<and>
         role (r_user r) = (case d_role d of None \<Rightarrow> USER_ROLES_USER | Some x \<Rightarrow> x) \<and>
         map_option role (findById oid s') =
           Some (case d_role d of None \<Rightarrow> USER_ROLES_USER | Some x \<Rightarrow> x)"
proof -
  from assms obtain u s1 where c: "create ev now oid salt d s = (Inr u, s1)"
    and it: "issue_tokens ev now REGISTER_SUCCESS u s1 = (Inr r, s')"
    by (auto simp: register_tail split: option.splits sum.splits prod.splits)
  note cs = create_success [OF c]
  note ok = issue_tokens_success [OF it]
  from cs have "find (\<lambda>x. u_id x = oid) s1 = Some u"
    by (simp add: find_appended)
  then have f: "findById oid s1 = Some (select_default u)" by (simp add: findById_def)
  have "map_option role (findById oid s') = Some (role u)"
    using ok cs f
    by (simp add: findById_updateLastLogin findById_updateRefreshToken select_default_def)
  with c cs ok show ?thesis by (simp add: sanitizeUser_def)
qed

theorem register_forwards_role_witness:
  "d_role d_admin = Some USER_ROLES_ADMIN \<and>
   isl (fst (register env_ex 100 1 ''salt'' d_admin [])) = False \<and>
   role (r_user (projr (fst (register env_ex 100 1 ''salt'' d_admin [])))) = USER_ROLES_ADMIN \<and>
   map_option role (findById 1 (snd (register env_ex 100 1 ''salt'' d_admin []))) =
     Some USER_ROLES_ADMIN"
proof -
  have "\<exists>r s'. register env_ex 100 1 ''salt'' d_admin [] = (Inr r, s')"
    by (simp add: register_tail findByEmail_def create_def model_create_def d_admin_def
          cast_email_def bcrypt_genSalt_rounds_def
          toLowerCase_def toLowerCase_char_def trim_def is_space_def valid_name_def
          valid_email_def valid_password_def valid_role_def match_email_def
          USER_ROLES_ADMIN_def USER_ROLES_USER_def issue_tokens_def generateAccessToken_def
          generateRefreshToken_def jwt_sign_def env_ex_def bcrypt_hash_def Let_def)
  then obtain r s' where h: "register env_ex 100 1 ''salt'' d_admin [] = (Inr r, s')" by blast
  have d: "d_role d_admin = Some USER_ROLES_ADMIN"
    by (simp add: d_admin_def USER_ROLES_ADMIN_def)
  show ?thesis
    using register_forwards_role [OF h] h d by simp
qed

section \<open>Refresh and logout\<close>

lemma refreshToken_op_store: "snd (refreshToken_op ev now tok s) = s"
  by (simp add: refreshToken_op_def split: sum.splits option.splits)

lemma refreshToken_op_ignores_stored:
  "fst (refreshToken_op ev now tok (map (\<lambda>x. x\<lparr>refreshToken := f x\<rparr>) s)) =
   fst (refreshToken_op ev now tok s)"
  by (simp add: refreshToken_op_def findById_map_refreshToken split: sum.splits option.splits)

text \<open>
  Claim C4. For a refresh token that verifies under the refresh secret and whose userId
  finds a stored, active user, \<open>refreshToken\<close> returns exactly a new access token for
  that user (signed now, with the access secret and the access lifetime) and the store
  it leaves is the store it was given, every field of every record included. The
  access secret must be configured for the token to be signed. The operation never
  changes the store, on any token and at any time.
\<close>

theorem refreshToken_op_writes_nothing:
  assumes "jwt_verify tok (JWT_REFRESH_SECRET ev) now = Inr decoded"
      and "findById (p_userId decoded) s = Some u" and "isActive u"
      and "JWT_SECRET ev = Some k" and "k \<noteq> []"
  shows "refreshToken_op ev now tok s =
           (Inr [Jwt \<lparr> p_userId = u_id u, p_email = Some (email u), p_role = Some (role u) \<rparr>
                   now (now + (case JWT_EXPIRES_IN ev of None \<Rightarrow> 7 * 86400 | Some d \<Rightarrow> d)) k], s) \<and>
         (\<forall>tok' now'. snd (refreshToken_op ev now' tok' s) = s)"
proof
  from assms show "refreshToken_op ev now tok s =
           (Inr [Jwt \<lparr> p_userId = u_id u, p_email = Some (email u), p_role = Some (role u) \<rparr>
                   now (now + (case JWT_EXPIRES_IN ev of None \<Rightarrow> 7 * 86400 | Some d \<Rightarrow> d)) k], s)"
    by (simp add: refreshToken_op_def generateAccessToken_def jwt_sign_def)
  show "\<forall>tok' now'. snd (refreshToken_op ev now' tok' s) = s"
    by (simp add: refreshToken_op_store)
qed

theorem refreshToken_op_writes_nothing_witness:
  "jwt_verify refresh_token_ex (JWT_REFRESH_SECRET env_ex) 200 =
     Inr \<lparr> p_userId = 1, p_email = None, p_role = None \<rparr> \<and>
   map_option isActive (findById 1 [user_logged_in]) = Some True \<and>
   refreshToken_op env_ex 200 refresh_token_ex [user_logged_in] =
     (Inr [Jwt \<lparr> p_userId = 1, p_email = Some ''eve@x.io'', p_role = Some ''user'' \<rparr>
             200 605000 ''access-secret''], [user_logged_in])"
proof -
  have v: "jwt_verify refresh_token_ex (JWT_REFRESH_SECRET env_ex) 200 =
             Inr \<lparr> p_userId = 1, p_email = None, p_role = None \<rparr>"
    by (simp add: refresh_token_ex_def env_ex_def)
  have f: "findById (p_userId \<lparr> p_userId = 1, p_email = None, p_role = None \<rparr>) [user_logged_in] =
             Some (select_default user_logged_in)"
    by (simp add: findById_def user_logged_in_def user_ex_def)
  have a: "isActive (select_default user_logged_in)"
    by (simp add: select_default_def user_logged_in_def user_ex_def)
  have k: "JWT_SECRET env_ex = Some ''access-secret''" "''access-secret'' \<noteq> []"
    by (simp_all add: env_ex_def)
  show ?thesis
    using refreshToken_op_writes_nothing [OF v f a k] v f a
    by (simp add: select_default_def user_logged_in_def user_ex_def env_ex_def)
qed

text \<open>
  Claim C2. Let a refresh token be issued to a user by a successful login or
  registration at time \<open>t0\<close>. After \<open>logout\<close> of that user on any store in which the
  user is afterwards present and active, the stored refreshToken of the user is null,
  and yet, as long as the token's lifetime has not passed, \<open>refreshToken\<close> with that
  token succeeds and returns a new access token for the user. The outcome of
  \<open>refreshToken\<close>, on any store, token and time, does not depend on the stored
  refreshToken values at all.
\<close>

theorem refresh_after_logout:
  assumes issued: "login ev t0 e pw s0 = (Inr r, s1) \<or> register ev t0 oid salt d s0 = (Inr r, s1)"
      and s': "s' = snd (logout (u_id (r_user r)) t1 s)"
      and present: "findById (u_id (r_user r)) s' = Some u'" and active: "isActive u'"
      and fresh: "now < t0 + (case JWT_REFRESH_EXPIRES_IN ev of None \<Rightarrow> 30 * 86400 | Some d \<Rightarrow> d)"
  shows "(\<exists>a. refreshToken_op ev now (r_refreshToken r) s' = (Inr a, s') \<and>
              generateAccessToken ev now u' = Inr a) \<and>
         map_option refreshToken (find (\<lambda>x. u_id x = u_id (r_user r)) s') = Some None \<and>
         (\<forall>f tok t st. fst (refreshToken_op ev t tok (map (\<lambda>x. x\<lparr>refreshToken := f x\<rparr>) st)) =
                      fst (refreshToken_op ev t tok st))"
proof (intro conjI)
  from issued obtain msg u sx where it: "issue_tokens ev t0 msg u sx = (Inr r, s1)"
    using issued_by_issue_tokens by blast
  note ok = issue_tokens_success [OF it]
  from ok have uid: "u_id (r_user r) = u_id u" by (simp add: sanitizeUser_def)
  from ok obtain k where k: "JWT_SECRET ev = Some k" "k \<noteq> []"
    by (auto simp: generateAccessToken_def jwt_sign_def split: option.splits if_splits)
  from ok obtain kr where kr: "JWT_REFRESH_SECRET ev = Some kr" "kr \<noteq> []"
    and tok: "r_refreshToken r =
       [Jwt \<lparr> p_userId = u_id u, p_email = None, p_role = None \<rparr> t0
          (t0 + (case JWT_REFRESH_EXPIRES_IN ev of None \<Rightarrow> 30 * 86400 | Some d \<Rightarrow> d)) kr]"
    by (auto simp: generateRefreshToken_def jwt_sign_def split: option.splits if_splits)
  have v: "jwt_verify (r_refreshToken r) (JWT_REFRESH_SECRET ev) now =
             Inr \<lparr> p_userId = u_id u, p_email = None, p_role = None \<rparr>"
    using fresh by (simp add: tok kr)
  show "\<exists>a. refreshToken_op ev now (r_refreshToken r) s' = (Inr a, s') \<and>
              generateAccessToken ev now u' = Inr a"
    using v present active uid k
    by (simp add: refreshToken_op_def generateAccessToken_def jwt_sign_def)
  from present obtain x where "find (\<lambda>x. u_id x = u_id (r_user r)) s' = Some x"
    by (auto simp: findById_def)
  then show "map_option refreshToken (find (\<lambda>x. u_id x = u_id (r_user r)) s') = Some None"
    unfolding s' find_after_logout by auto
  show "\<forall>f tok t st. fst (refreshToken_op ev t tok (map (\<lambda>x. x\<lparr>refreshToken := f x\<rparr>) st)) =
                      fst (refreshToken_op ev t tok st)"
    by (simp add: refreshToken_op_ignores_stored)
qed


theorem refresh_after_logout_witness:
  "login env_ex 100 ''eve@x.io'' ''Secret@123'' [user_ex] =
     (Inr \<lparr> r_user = sanitizeUser user_ex, r_accessToken = access_token_ex,
            r_refreshToken = refresh_token_ex, r_message = LOGIN_SUCCESS \<rparr>, [user_logged_in]) \<and>
   snd (logout 1 150 [user_logged_in]) = [user_ex\<lparr>updatedAt := 150\<rparr>] \<and>
   refreshToken (user_ex\<lparr>updatedAt := 150\<rparr>) = None \<and>
   refreshToken_op env_ex 200 refresh_token_ex [user_ex\<lparr>updatedAt := 150\<rparr>] =
     (Inr [Jwt \<lparr> p_userId = 1, p_email = Some ''eve@x.io'', p_role = Some ''user'' \<rparr>
             200 605000 ''access-secret''], [user_ex\<lparr>updatedAt := 150\<rparr>])"
proof -
  have l: "login env_ex 100 ''eve@x.io'' ''Secret@123'' [user_ex] =
     (Inr \<lparr> r_user = sanitizeUser user_ex, r_accessToken = access_token_ex,
            r_refreshToken = refresh_token_ex, r_message = LOGIN_SUCCESS \<rparr>, [user_logged_in])"
    by (simp add: login_tail findByEmail_ex comparePassword_ex isActive_ex)
       (simp add: user_ex_def issue_tokens_def generateAccessToken_def
          generateRefreshToken_def jwt_sign_def env_ex_def sanitizeUser_def access_token_ex_def
          refresh_token_ex_def user_logged_in_def updateRefreshToken_def updateLastLogin_def
          updateById_def Let_def)
  have o: "snd (logout 1 150 [user_logged_in]) = [user_ex\<lparr>updatedAt := 150\<rparr>]"
    by (simp add: logout_def updateRefreshToken_def updateById_def user_logged_in_def user_ex_def
          Let_def)
  have i: "u_id (r_user \<lparr> r_user = sanitizeUser user_ex, r_accessToken = access_token_ex,
            r_refreshToken = refresh_token_ex, r_message = LOGIN_SUCCESS \<rparr>) = 1"
    by (simp add: sanitizeUser_def user_ex_def)
  have s: "[user_ex\<lparr>updatedAt := 150\<rparr>] =
             snd (logout (u_id (r_user \<lparr> r_user = sanitizeUser user_ex, r_accessToken = access_token_ex,
            r_refreshToken = refresh_token_ex, r_message = LOGIN_SUCCESS \<rparr>)) 150 [user_logged_in])"
    by (simp only: i o)
  have p: "findById (u_id (r_user \<lparr> r_user = sanitizeUser user_ex, r_accessToken = access_token_ex,
            r_refreshToken = refresh_token_ex, r_message = LOGIN_SUCCESS \<rparr>))
             [user_ex\<lparr>updatedAt := 150\<rparr>] = Some (select_default (user_ex\<lparr>updatedAt := 150\<rparr>))"
    by (simp add: findById_def user_ex_def sanitizeUser_def)
  have a: "isActive (select_default (user_ex\<lparr>updatedAt := 150\<rparr>))"
    by (simp add: select_default_def user_ex_def)
  have f: "200 < 100 + (case JWT_REFRESH_EXPIRES_IN env_ex of None \<Rightarrow> 30 * 86400 | Some d \<Rightarrow> d)"
    by (simp add: env_ex_def)
  show ?thesis
    using refresh_after_logout [OF disjI1 [OF l] s p a f] l o
    by (auto simp: generateAccessToken_def jwt_sign_def env_ex_def select_default_def user_ex_def)
qed

text \<open>
  Claim C5. When the access secret and the refresh secret differ, a token produced by
  \<open>generateAccessToken\<close> is rejected by \<open>refreshToken\<close> (which verifies with the
  refresh secret) with the InvalidTokenError (401, "Invalid token"), and a token
  produced by \<open>generateRefreshToken\<close> is rejected with the same error by
  \<open>verifyToken\<close> and by the \<open>authenticate\<close> middleware when sent as the bearer token.
\<close>

theorem secret_isolation:
  assumes "JWT_SECRET ev \<noteq> JWT_REFRESH_SECRET ev"
  shows "(generateAccessToken ev t0 u = Inr tok \<longrightarrow>
            refreshToken_op ev now tok s = (Inl (new_ApiError 401 INVALID_TOKEN [] now), s)) \<and>
         (generateRefreshToken ev t0 u = Inr tok \<longrightarrow>
            verifyToken ev now tok = Inl (new_ApiError 401 INVALID_TOKEN [] now) \<and>
            authenticate ev now \<lparr> authorization = Some (map Plain ''Bearer '' @ tok), req_user = ru \<rparr> s =
              (Inl (new_ApiError 401 INVALID_TOKEN [] now), s))"
proof (intro conjI impI)
  assume "generateAccessToken ev t0 u = Inr tok"
  then obtain pl exp k where t: "tok = [Jwt pl t0 exp k]" and k: "JWT_SECRET ev = Some k"
    by (auto simp: generateAccessToken_def jwt_sign_def split: option.splits if_splits)
  with assms have "jwt_verify tok (JWT_REFRESH_SECRET ev) now = Inl JsonWebTokenError"
    by (cases "JWT_REFRESH_SECRET ev") auto
  then show "refreshToken_op ev now tok s = (Inl (new_ApiError 401 INVALID_TOKEN [] now), s)"
    by (simp add: refreshToken_op_def catch_jwt_def)
next
  assume g: "generateRefreshToken ev t0 u = Inr tok"
  then obtain pl exp k where t: "tok = [Jwt pl t0 exp k]" and k: "JWT_REFRESH_SECRET ev = Some k"
    by (auto simp: generateRefreshToken_def jwt_sign_def split: option.splits if_splits)
  with assms have v: "jwt_verify tok (JWT_SECRET ev) now = Inl JsonWebTokenError"
    by (cases "JWT_SECRET ev") auto
  then show "verifyToken ev now tok = Inl (new_ApiError 401 INVALID_TOKEN [] now)"
    by (simp add: verifyToken_def catch_jwt_def)
  show "authenticate ev now \<lparr> authorization = Some (map Plain ''Bearer '' @ tok), req_user = ru \<rparr> s =
              (Inl (new_ApiError 401 INVALID_TOKEN [] now), s)"
    using v t by (simp add: authenticate_def startsWith_def catch_jwt_def)
qed


theorem secret_isolation_witness:
  "JWT_SECRET env_ex \<noteq> JWT_REFRESH_SECRET env_ex \<and>
   generateAccessToken env_ex 100 user_ex = Inr access_token_ex \<and>
   refreshToken_op env_ex 200 access_token_ex [user_ex] =
     (Inl (new_ApiError 401 INVALID_TOKEN [] 200), [user_ex]) \<and>
   generateRefreshToken env_ex 100 user_ex = Inr refresh_token_ex \<and>
   verifyToken env_ex 200 refresh_token_ex = Inl (new_ApiError 401 INVALID_TOKEN [] 200) \<and>
   authenticate env_ex 200 (req_bearer refresh_token_ex) [user_ex] =
     (Inl (new_ApiError 401 INVALID_TOKEN [] 200), [user_ex])"
proof -
  have d: "JWT_SECRET env_ex \<noteq> JWT_REFRESH_SECRET env_ex" by (simp add: env_ex_def)
  have a: "generateAccessToken env_ex 100 user_ex = Inr access_token_ex"
    by (simp add: generateAccessToken_def jwt_sign_def env_ex_def user_ex_def access_token_ex_def)
  have r: "generateRefreshToken env_ex 100 user_ex = Inr refresh_token_ex"
    by (simp add: generateRefreshToken_def jwt_sign_def env_ex_def user_ex_def refresh_token_ex_def)
  show ?thesis
    using secret_isolation [OF d, of 100 user_ex access_token_ex 200 "[user_ex]" None]
          secret_isolation [OF d, of 100 user_ex refresh_token_ex 200 "[user_ex]" None] d a r
    by (simp add: req_bearer_def)
qed

section \<open>The authentication middleware\<close>

lemma authenticate_store: "snd (authenticate ev now req s) = s"
  by (simp add: authenticate_def split: option.splits list.splits sum.splits)

text \<open>
  Claim C7. \<open>authenticate\<close> fails with the UnauthorizedError (401, "Unauthorized
  access", "No token provided") when the Authorization header is missing or does not
  start with "Bearer ". When the header starts with "Bearer " and its second part
  verifies as an access token, the guard fails with the UnauthorizedError ("User not
  found") if no user has the token's userId, fails with the ForbiddenError (403,
  "Access forbidden") if that user is not active, and otherwise calls next with
  exactly userId, email and role of that user attached as \<open>req.user\<close>. In every case
  the store is left as it was.
\<close>

theorem authenticate_outcomes:
  "(authorization req = None \<or>
    (\<exists>h. authorization req = Some h \<and> \<not> startsWith h (map Plain ''Bearer '')) \<longrightarrow>
      authenticate ev now req s =
        (Inl (new_ApiError 401 UNAUTHORIZED ''No token provided'' now), s)) \<and>
   (\<forall>h decoded.
      authorization req = Some h \<and> startsWith h (map Plain ''Bearer '') \<and>
      jwt_verify (split h (Plain CHR '' '') ! 1) (JWT_SECRET ev) now = Inr decoded \<longrightarrow>
      (case findById (p_userId decoded) s of
         None \<Rightarrow>
           authenticate ev now req s =
             (Inl (new_ApiError 401 UNAUTHORIZED ''User not found'' now), s)
       | Some u \<Rightarrow>
           if isActive u
           then authenticate ev now req s =
                  (Inr (req\<lparr>req_user :=
                     Some \<lparr> userId = u_id u, id_email = email u, id_role = role u \<rparr>\<rparr>), s)
           else authenticate ev now req s =
                  (Inl (new_ApiError 403 FORBIDDEN ''Account is deactivated'' now), s))) \<and>
   snd (authenticate ev now req s) = s"
proof (intro conjI allI impI)
  assume "authorization req = None \<or>
    (\<exists>h. authorization req = Some h \<and> \<not> startsWith h (map Plain ''Bearer ''))"
  then show "authenticate ev now req s =
        (Inl (new_ApiError 401 UNAUTHORIZED ''No token provided'' now), s)"
    by (auto simp: authenticate_def)
next
  fix h decoded
  assume a: "authorization req = Some h \<and> startsWith h (map Plain ''Bearer '') \<and>
      jwt_verify (split h (Plain CHR '' '') ! 1) (JWT_SECRET ev) now = Inr decoded"
  then obtain tok rest where t: "drop 1 (split h (Plain CHR '' '')) = tok # rest"
     and n: "split h (Plain CHR '' '') ! 1 = tok"
    using split_Bearer by blast
  from a have ne: "h \<noteq> []" by (auto simp: startsWith_def)
  show "(case findById (p_userId decoded) s of
         None \<Rightarrow>
           authenticate ev now req s =
             (Inl (new_ApiError 401 UNAUTHORIZED ''User not found'' now), s)
       | Some u \<Rightarrow>
           if isActive u
           then authenticate ev now req s =
                  (Inr (req\<lparr>req_user :=
                     Some \<lparr> userId = u_id u, id_email = email u, id_role = role u \<rparr>\<rparr>), s)
           else authenticate ev now req s =
                  (Inl (new_ApiError 403 FORBIDDEN ''Account is deactivated'' now), s))"
    using a t n ne
    by (simp add: authenticate_def catch_jwt_def new_ApiError_def split: option.splits)
next
  show "snd (authenticate ev now req s) = s" by (rule authenticate_store)
qed


theorem authenticate_outcomes_witness:
  "authenticate env_ex 200 req_no_header [user_ex] =
     (Inl (new_ApiError 401 UNAUTHORIZED ''No token provided'' 200), [user_ex]) \<and>
   authenticate env_ex 200 (req_bearer access_token_ex) [] =
     (Inl (new_ApiError 401 UNAUTHORIZED ''User not found'' 200), []) \<and>
   authenticate env_ex 200 (req_bearer access_token_ex) [user_inactive] =
     (Inl (new_ApiError 403 FORBIDDEN ''Account is deactivated'' 200), [user_inactive]) \<and>
   authenticate env_ex 200 (req_bearer access_token_ex) [user_ex] =
     (Inr ((req_bearer access_token_ex)\<lparr>req_user :=
        Some \<lparr> userId = 1, id_email = ''eve@x.io'', id_role = ''user'' \<rparr>\<rparr>), [user_ex])"
proof -
  have v: "authorization (req_bearer access_token_ex) = Some (map Plain ''Bearer '' @ access_token_ex) \<and>
           startsWith (map Plain ''Bearer '' @ access_token_ex) (map Plain ''Bearer '') \<and>
           jwt_verify (split (map Plain ''Bearer '' @ access_token_ex) (Plain CHR '' '') ! 1)
             (JWT_SECRET env_ex) 200 =
             Inr \<lparr> p_userId = 1, p_email = Some ''eve@x.io'', p_role = Some ''user'' \<rparr>"
    by (simp add: req_bearer_def startsWith_def access_token_ex_def env_ex_def)
  have n: "authorization req_no_header = None" by (simp add: req_no_header_def)
  have 1: "authenticate env_ex 200 req_no_header [user_ex] =
     (Inl (new_ApiError 401 UNAUTHORIZED ''No token provided'' 200), [user_ex])"
    using authenticate_outcomes [of req_no_header env_ex 200 "[user_ex]"] n by blast
  have 2: "authenticate env_ex 200 (req_bearer access_token_ex) [] =
     (Inl (new_ApiError 401 UNAUTHORIZED ''User not found'' 200), [])"
    using authenticate_outcomes [of "req_bearer access_token_ex" env_ex 200 "[]"] v
    by (auto simp: findById_def)
  have 3: "authenticate env_ex 200 (req_bearer access_token_ex) [user_inactive] =
     (Inl (new_ApiError 403 FORBIDDEN ''Account is deactivated'' 200), [user_inactive])"
    using authenticate_outcomes [of "req_bearer access_token_ex" env_ex 200 "[user_inactive]"] v
    by (auto simp: findById_def user_inactive_def user_ex_def select_default_def)
  have 4: "authenticate env_ex 200 (req_bearer access_token_ex) [user_ex] =
     (Inr ((req_bearer access_token_ex)\<lparr>req_user :=
        Some \<lparr> userId = 1, id_email = ''eve@x.io'', id_role = ''user'' \<rparr>\<rparr>), [user_ex])"
    using authenticate_outcomes [of "req_bearer access_token_ex" env_ex 200 "[user_ex]"] v
    by (auto simp: findById_def user_ex_def select_default_def)
  from 1 2 3 4 show ?thesis by simp
qed

section \<open>The ownership guard\<close>

text \<open>
  Claim C9. For a request with an attached identity whose role is not admin, the guard
  \<open>isAdminOrOwner\<close> throws a TypeError when the owner resolver returns null or
  undefined; when the resolver returns normally, the guard throws its ForbiddenError
  (403, "You can only access your own resources") exactly when the resolver returned an
  owner id that is not null and differs from the caller's userId; and an error thrown by
  the resolver propagates unchanged.
\<close>

theorem isAdminOrOwner_missing_owner:
  assumes "req_user req = Some u" and "id_role u \<noteq> USER_ROLES_ADMIN"
  shows "(getResourceUserId req = Inr None \<longrightarrow>
            isAdminOrOwner getResourceUserId now req = Inl TypeError) \<and>
         (\<forall>v. getResourceUserId req = Inr v \<longrightarrow>
            (isAdminOrOwner getResourceUserId now req =
               Inl (new_ApiError 403 FORBIDDEN ''You can only access your own resources'' now))
            = (v \<noteq> None \<and> v \<noteq> Some (userId u))) \<and>
         (\<forall>e. getResourceUserId req = Inl e \<longrightarrow>
            isAdminOrOwner getResourceUserId now req = Inl e)"
  using assms
  by (auto simp: isAdminOrOwner_def new_ApiError_def split: option.splits sum.splits)

theorem isAdminOrOwner_missing_owner_witness:
  "req_user req_plain_user = Some \<lparr> userId = 1, id_email = ''eve@x.io'', id_role = ''user'' \<rparr> \<and>
   ''user'' \<noteq> USER_ROLES_ADMIN \<and>
   isAdminOrOwner (\<lambda>r. Inr None) 7 req_plain_user = Inl TypeError \<and>
   isAdminOrOwner (\<lambda>r. Inr (Some 2)) 7 req_plain_user =
     Inl (new_ApiError 403 FORBIDDEN ''You can only access your own resources'' 7) \<and>
   isAdminOrOwner (\<lambda>r. Inr (Some 1)) 7 req_plain_user = Inr ()"
proof -
  have u: "req_user req_plain_user =
             Some \<lparr> userId = 1, id_email = ''eve@x.io'', id_role = ''user'' \<rparr>"
    by (simp add: req_plain_user_def)
  have r: "id_role \<lparr> userId = 1, id_email = ''eve@x.io'', id_role = ''user'' \<rparr> \<noteq> USER_ROLES_ADMIN"
    by (simp add: USER_ROLES_ADMIN_def)
  show ?thesis
    using isAdminOrOwner_missing_owner [OF u r, of "\<lambda>r. Inr None" 7]
          isAdminOrOwner_missing_owner [OF u r, of "\<lambda>r. Inr (Some 2)" 7] u r
    by (simp add: isAdminOrOwner_def USER_ROLES_ADMIN_def)
qed

end
